theory Spec2Isabelle
  imports Complex_Main "HOL-Library.Char_ord" "HOL-Library.List_Lexorder" "HOL-Library.AList"
begin

section \<open>Strings\<close>

text \<open>
  Descriptions, merchants and categories are JavaScript strings. They are modelled as
  \<open>string\<close> (a list of 8-bit characters); the helpers below follow the JavaScript
  built-ins on that range.
\<close>

definition isSpace :: "char \<Rightarrow> bool" where
  \<comment> \<open>white space and line terminators: what \<open>\s\<close> and \<open>trim\<close> recognise\<close>
  "isSpace c = (c \<in> set [CHR 0x09, CHR 0x0A, CHR 0x0B, CHR 0x0C, CHR 0x0D, CHR 0x20, CHR 0xA0])"

definition isDigit :: "char \<Rightarrow> bool" where
  "isDigit c = (c \<in> set ''0123456789'')"

definition upperLetters :: string where
  "upperLetters = ''ABCDEFGHIJKLMNOPQRSTUVWXYZ''"

definition lowerLetters :: string where
  "lowerLetters = ''abcdefghijklmnopqrstuvwxyz''"

definition isLetter :: "char \<Rightarrow> bool" where
  "isLetter c = (c \<in> set upperLetters \<or> c \<in> set lowerLetters)"

definition isWord :: "char \<Rightarrow> bool" where
  \<comment> \<open>\<open>\w\<close>\<close>
  "isWord c = (isLetter c \<or> isDigit c \<or> c = CHR ''_'')"

definition isLineTerminator :: "char \<Rightarrow> bool" where
  "isLineTerminator c = (c = CHR 0x0A \<or> c = CHR 0x0D)"

definition toLowerChar :: "char \<Rightarrow> char" where
  "toLowerChar c = (case map_of (zip upperLetters lowerLetters) c of Some l \<Rightarrow> l | None \<Rightarrow> c)"

definition toLowerCase :: "string \<Rightarrow> string" where
  "toLowerCase s = map toLowerChar s"

definition trim :: "string \<Rightarrow> string" where
  "trim s = rev (dropWhile isSpace (rev (dropWhile isSpace s)))"

fun startsWith :: "string \<Rightarrow> string \<Rightarrow> bool" where
  "startsWith s [] = True"
| "startsWith [] (k # ks) = False"
| "startsWith (c # cs) (k # ks) = (c = k \<and> startsWith cs ks)"

fun includesStr :: "string \<Rightarrow> string \<Rightarrow> bool" where
  \<comment> \<open>\<open>s.includes(k)\<close>\<close>
  "includesStr [] k = startsWith [] k"
| "includesStr (c # cs) k = (startsWith (c # cs) k \<or> includesStr cs k)"

function collapseSpaces :: "string \<Rightarrow> string" where
  \<comment> \<open>\<open>s.replace(/\s+/g, ' ')\<close>\<close>
  "collapseSpaces [] = []"
| "collapseSpaces (c # cs) =
     (if isSpace c then CHR '' '' # collapseSpaces (dropWhile isSpace cs)
      else c # collapseSpaces cs)"
  by pat_completeness auto
termination
  by (relation "measure length") (auto simp: length_dropWhile_le less_Suc_eq_le)

definition truthy :: "string option \<Rightarrow> bool" where
  \<comment> \<open>a string-or-null/undefined value in a JavaScript condition\<close>
  "truthy v = (case v of None \<Rightarrow> False | Some s \<Rightarrow> s \<noteq> [])"

definition orElse :: "string option \<Rightarrow> string \<Rightarrow> string" where
  \<comment> \<open>\<open>v || d\<close> for a string-or-null/undefined \<open>v\<close>\<close>
  "orElse v d = (case v of None \<Rightarrow> d | Some s \<Rightarrow> if s = [] then d else s)"

section \<open>Regular expressions of the pattern extractor\<close>

text \<open>
  The extractor's patterns use literals, character classes, quantified character classes
  (greedy and lazy), alternation, one capture group, a lookahead and the end anchor, all
  under the \<open>i\<close> flag. \<open>rmatch\<close> lists the ways a pattern matches at the start of the
  input, in the order in which a backtracking matcher tries them; each is the remaining
  input with the text of group 1.
\<close>

datatype regex =
    Eps
  | Chr "char \<Rightarrow> bool"
  | Rep bool nat "nat option" "char \<Rightarrow> bool"
  | Seq regex regex
  | Alt regex regex
  | Grp regex
  | Ahead regex
  | Eol

definition reps :: "bool \<Rightarrow> nat \<Rightarrow> nat option \<Rightarrow> (char \<Rightarrow> bool) \<Rightarrow> string \<Rightarrow> string list" where
  \<comment> \<open>a class repeated between \<open>mn\<close> and \<open>mx\<close> times: greedy tries the longest run first,
      lazy the shortest\<close>
  "reps greedy mn mx P s =
     (let n = length (takeWhile P s);
          hi = (case mx of None \<Rightarrow> n | Some m \<Rightarrow> min m n);
          counts = (if greedy then rev [mn..<Suc hi] else [mn..<Suc hi])
      in map (\<lambda>k. drop k s) counts)"

fun rmatch :: "regex \<Rightarrow> string \<times> string option \<Rightarrow> (string \<times> string option) list" where
  "rmatch Eps sc = [sc]"
| "rmatch (Chr P) (s, c) = (case s of [] \<Rightarrow> [] | x # xs \<Rightarrow> if P x then [(xs, c)] else [])"
| "rmatch (Rep greedy mn mx P) (s, c) = map (\<lambda>r. (r, c)) (reps greedy mn mx P s)"
| "rmatch (Seq a b) sc = concat (map (rmatch b) (rmatch a sc))"
| "rmatch (Alt a b) sc = rmatch a sc @ rmatch b sc"
| "rmatch (Grp a) (s, c) =
     map (\<lambda>rc. (fst rc, Some (take (length s - length (fst rc)) s))) (rmatch a (s, c))"
| "rmatch (Ahead a) sc = (if rmatch a sc = [] then [] else [sc])"
| "rmatch Eol (s, c) = (if s = [] then [(s, c)] else [])"

fun regexMatch :: "regex \<Rightarrow> string \<Rightarrow> string option option" where
  \<comment> \<open>\<open>s.match(re)\<close> without the \<open>g\<close> flag: the leftmost match; \<open>None\<close> is \<open>null\<close>,
      \<open>Some g\<close> a match whose group 1 is \<open>g\<close>\<close>
  "regexMatch r s =
     (case rmatch r (s, None) of
        rc # _ \<Rightarrow> Some (snd rc)
      | [] \<Rightarrow> (case s of [] \<Rightarrow> None | _ # t \<Rightarrow> regexMatch r t))"

definition ci :: "char \<Rightarrow> char \<Rightarrow> bool" where
  \<comment> \<open>a literal character under the \<open>i\<close> flag\<close>
  "ci k c = (toLowerChar c = toLowerChar k)"

definition lit :: "string \<Rightarrow> regex" where
  "lit s = foldr (\<lambda>k r. Seq (Chr (ci k)) r) s Eps"

definition seqs :: "regex list \<Rightarrow> regex" where
  "seqs rs = foldr Seq rs Eps"

definition anyChar :: "char \<Rightarrow> bool" where
  "anyChar c = (\<not> isLineTerminator c)"

definition rLazyPlus :: "(char \<Rightarrow> bool) \<Rightarrow> regex" where
  "rLazyPlus P = Rep False 1 None P"

definition rPlus :: "(char \<Rightarrow> bool) \<Rightarrow> regex" where
  "rPlus P = Rep True 1 None P"

definition rStar :: "(char \<Rightarrow> bool) \<Rightarrow> regex" where
  "rStar P = Rep True 0 None P"

definition rTimes :: "nat \<Rightarrow> (char \<Rightarrow> bool) \<Rightarrow> regex" where
  "rTimes n P = Rep True n (Some n) P"

section \<open>Pattern extractor (heuristicService)\<close>

record HeuristicData =
  merchant_h :: "string option"
  cacheKey_h :: string

record Extractor =
  regex_x :: regex
  prefix_x :: "string option"

definition dateRe :: regex where
  \<comment> \<open>\<open>\d{2}-\d{2}-\d{4}\<close>\<close>
  "dateRe = seqs [rTimes 2 isDigit, lit ''-'', rTimes 2 isDigit, lit ''-'', rTimes 4 isDigit]"

definition commonExtractors :: "Extractor list" where
  "commonExtractors =
    [\<lparr>regex_x = seqs [lit ''Lipa na M-PESA to '', Grp (rLazyPlus anyChar),
                      Alt (lit '' Transaction ID:'') Eol], prefix_x = None\<rparr>,
     \<lparr>regex_x = seqs [lit ''Pay Bill to '', Grp (rLazyPlus anyChar),
                      Alt (Seq (lit '' Acc No.'') (rStar anyChar)) Eol], prefix_x = None\<rparr>,
     \<lparr>regex_x = seqs [lit ''M-PESA Paybill, '', Grp (rLazyPlus anyChar), lit '',''],
      prefix_x = None\<rparr>,
     \<lparr>regex_x = seqs [lit ''Card Purchase at '', Grp (rLazyPlus anyChar),
                      Alt (Seq (lit '' on '') (rStar anyChar)) Eol], prefix_x = None\<rparr>,
     \<lparr>regex_x = seqs [lit ''Withdrawal from Agent '',
                      Grp (rLazyPlus (\<lambda>c. isDigit c \<or> isWord c \<or> isSpace c \<or> c = CHR ''-'')),
                      Alt (Seq (lit '' at '') (rStar anyChar)) Eol], prefix_x = Some ''Agent ''\<rparr>]"

definition merchantExtractors :: "Extractor list" where
  "merchantExtractors = commonExtractors @
    [\<lparr>regex_x = seqs [lit ''KE-'', rPlus (\<lambda>c. isDigit c \<or> c = CHR ''-''), rPlus isSpace,
                      Grp (Seq (Chr isLetter)
                             (rLazyPlus (\<lambda>c. isLetter c \<or> isSpace c \<or> c = CHR ''&''))),
                      Ahead (Alt (Seq (rPlus isSpace) (Alt (Chr isDigit) (lit ''PESA'')))
                                 (lit ''|''))], prefix_x = None\<rparr>,
     \<lparr>regex_x = seqs [lit ''DEBIT CARD TXN AT '', Grp (rLazyPlus anyChar),
                      Alt (Rep True 2 None isSpace) dateRe], prefix_x = None\<rparr>,
     \<lparr>regex_x = seqs [lit ''IBANKING TRF '', Alt (lit ''TO'') (lit ''FROM''), lit '' '',
                      rPlus isDigit, lit '' '', Grp (rLazyPlus anyChar), Eol], prefix_x = None\<rparr>,
     \<lparr>regex_x = seqs [lit ''PESA '', rPlus (\<lambda>c. \<not> isSpace c), lit '' '', Grp (rLazyPlus anyChar),
                      lit '' '', rTimes 4 isDigit], prefix_x = None\<rparr>,
     \<lparr>regex_x = seqs [lit ''RTGS '', rPlus anyChar, lit '' ITF '', Grp (rLazyPlus anyChar), lit '' KE''],
      prefix_x = None\<rparr>]"

definition merchantExtractors2 :: "Extractor list" where
  \<comment> \<open>the rule list of the second copy of the service\<close>
  "merchantExtractors2 = commonExtractors @
    [\<lparr>regex_x = seqs [lit ''IBKG MPESA PAY TO '', rPlus isDigit, lit ''-'', Grp (rLazyPlus anyChar),
                      lit ''-MOBILE MONEY''], prefix_x = None\<rparr>,
     \<lparr>regex_x = seqs [lit ''DEBIT CARD TXN AT '', Grp (rLazyPlus anyChar),
                      Alt (Rep True 2 None isSpace) (Seq (lit '' '') dateRe)], prefix_x = None\<rparr>,
     \<lparr>regex_x = seqs [lit ''KE-'', rPlus isDigit, lit ''-'', rPlus isDigit, lit ''-'', rPlus isDigit,
                      lit ''-'', rPlus isDigit, lit '' '', Grp (rLazyPlus anyChar), lit '' '',
                      rPlus isDigit], prefix_x = None\<rparr>,
     \<lparr>regex_x = seqs [lit ''IBKG MPESA PAY TO '', rPlus isDigit, lit ''-'', Grp (rLazyPlus anyChar),
                      lit ''-AIRTIME''], prefix_x = None\<rparr>,
     \<lparr>regex_x = seqs [lit ''IBKG MPESA PAY TO '', rPlus isDigit, lit ''-'', Grp (rLazyPlus anyChar),
                      lit ''-MOBILE MONEY TRANSFER''], prefix_x = None\<rparr>]"

fun firstExtraction :: "Extractor list \<Rightarrow> string \<Rightarrow> string option" where
  \<comment> \<open>the loop over the extractors: the first rule that matches with a non-empty group wins\<close>
  "firstExtraction [] d = None"
| "firstExtraction (x # xs) d =
     (case regexMatch (regex_x x) d of
        Some (Some g) \<Rightarrow>
          (if g \<noteq> [] then Some (collapseSpaces (orElse (prefix_x x) [] @ trim g))
           else firstExtraction xs d)
      | _ \<Rightarrow> firstExtraction xs d)"

definition extractWith :: "Extractor list \<Rightarrow> string \<Rightarrow> HeuristicData" where
  "extractWith xs description =
     (let trimmedDescription = trim description in
      case firstExtraction xs trimmedDescription of
        Some merchant \<Rightarrow> \<lparr>merchant_h = Some merchant, cacheKey_h = merchant\<rparr>
      | None \<Rightarrow> \<lparr>merchant_h = None, cacheKey_h = trimmedDescription\<rparr>)"

definition extractHeuristicData :: "string \<Rightarrow> HeuristicData" where
  "extractHeuristicData = extractWith merchantExtractors"

definition extractHeuristicData2 :: "string \<Rightarrow> HeuristicData" where
  "extractHeuristicData2 = extractWith merchantExtractors2"

section \<open>Category rule table (merchantCategoryMapService)\<close>

record CategoryRule =
  keywords_k :: "string list"
  category_k :: string

definition categoryRules :: "CategoryRule list" where
  "categoryRules =
    [\<lparr>keywords_k = [''naivas'', ''carrefour'', ''quickmart'', ''chandarana'', ''cleanshelf''],
      category_k = ''Groceries''\<rparr>,
     \<lparr>keywords_k = [''kplc'', ''kenya power'', ''prepaid'', ''postpaid''], category_k = ''Utilities''\<rparr>,
     \<lparr>keywords_k = [''zuku'', ''safaricom home'', ''faiba''], category_k = ''Utilities''\<rparr>,
     \<lparr>keywords_k = [''nairobi water'', ''nwsc''], category_k = ''Utilities''\<rparr>,
     \<lparr>keywords_k = [''java'', ''artcaffe'', ''kfc'', ''dominos'', ''pizza inn'', ''chicken inn''],
      category_k = ''Eating Out''\<rparr>,
     \<lparr>keywords_k = [''uber'', ''bolt'', ''little cab''], category_k = ''Transport''\<rparr>,
     \<lparr>keywords_k = [''total'', ''shell'', ''rubis'', ''ola''], category_k = ''Transport''\<rparr>,
     \<lparr>keywords_k = [''equity'', ''kcb'', ''co-op'', ''coop'', ''standard chartered'', ''stanchart'',
                   ''absia''], category_k = ''Internal Transfer''\<rparr>,
     \<lparr>keywords_k = [''nhif''], category_k = ''Health''\<rparr>,
     \<lparr>keywords_k = [''gotv'', ''dstv'', ''netflix''], category_k = ''Entertainment''\<rparr>,
     \<lparr>keywords_k = [''jumia'', ''kilimall''], category_k = ''Shopping''\<rparr>]"

fun categoryIn :: "CategoryRule list \<Rightarrow> string \<Rightarrow> string option" where
  "categoryIn [] m = None"
| "categoryIn (rule # rules) m =
     (if list_ex (includesStr m) (keywords_k rule) then Some (category_k rule)
      else categoryIn rules m)"

definition getCategoryForMerchant :: "string \<Rightarrow> string option" where
  "getCategoryForMerchant merchantName = categoryIn categoryRules (toLowerCase merchantName)"

section \<open>Enrichment cache (cachingService)\<close>

record EnrichedMerchantInfo =
  officialName :: "string option"
  website :: string

record EnrichedData =
  merchant_e :: string
  category_e :: string
  enrichedInfo_e :: "EnrichedMerchantInfo option"

text \<open>
  The state the services work on. \<open>memoryCache\<close> is the module variable (\<open>None\<close> is
  \<open>null\<close>), \<open>localStorage\<close> the parsed blob under the cache's storage key (\<open>None\<close> when the
  key is missing or its text does not parse), \<open>storageFull\<close> says that \<open>setItem\<close> throws,
  \<open>validationCache\<close> is the module map of geminiService. \<open>remoteCalls\<close>, \<open>cacheReads\<close> and
  \<open>waits\<close> record what happened: the number of \<open>generateContent\<close> calls, the number of
  \<open>getCachedEnrichment\<close> calls and the delays slept, in milliseconds.
\<close>

record World =
  memoryCache :: "(string \<rightharpoonup> EnrichedData) option"
  localStorage :: "(string \<rightharpoonup> EnrichedData) option"
  storageFull :: bool
  validationCache :: "string \<rightharpoonup> bool"
  remoteCalls :: nat
  cacheReads :: nat
  waits :: "nat list"

definition getCache :: "World \<Rightarrow> (string \<rightharpoonup> EnrichedData) \<times> World" where
  "getCache w =
     (case memoryCache w of
        Some m \<Rightarrow> (m, w)
      | None \<Rightarrow>
          (let m = (case localStorage w of Some parsedCache \<Rightarrow> parsedCache | None \<Rightarrow> Map.empty)
           in (m, w\<lparr>memoryCache := Some m\<rparr>)))"

definition persistCache :: "World \<Rightarrow> World" where
  "persistCache w =
     (case memoryCache w of
        Some m \<Rightarrow> (if storageFull w then w else w\<lparr>localStorage := Some m\<rparr>)
      | None \<Rightarrow> w)"

definition getCachedEnrichment :: "string \<Rightarrow> World \<Rightarrow> EnrichedData option \<times> World" where
  "getCachedEnrichment key w =
     (let (cache, w1) = getCache (w\<lparr>cacheReads := Suc (cacheReads w)\<rparr>) in (cache key, w1))"

definition setCachedEnrichment :: "string \<Rightarrow> EnrichedData \<Rightarrow> World \<Rightarrow> World" where
  "setCachedEnrichment key data w =
     (let (cache, w1) = getCache w
      in persistCache (w1\<lparr>memoryCache := Some (cache(key \<mapsto> data))\<rparr>))"

definition cacheView :: "World \<Rightarrow> string \<rightharpoonup> EnrichedData" where
  \<comment> \<open>the contents of the enrichment cache as the next reader sees them\<close>
  "cacheView w = fst (getCache w)"

section \<open>Remote client and retry (geminiService)\<close>

text \<open>
  The hosted model is outside the program: \<open>remote n q\<close> is what the \<open>n\<close>-th
  \<open>generateContent\<close> call of the run yields for the request \<open>q\<close>, after \<open>cleanJsonInfo\<close>:
  the call rejects, its text does not parse, or a value is parsed.
\<close>

datatype 'r outcome = Rejected | Unparsable | Parsed 'r

datatype error = Error string

definition callRemote :: "(nat \<Rightarrow> 'q \<Rightarrow> 'r outcome) \<Rightarrow> 'q \<Rightarrow> World \<Rightarrow> 'r outcome \<times> World" where
  "callRemote remote q w = (remote (remoteCalls w) q, w\<lparr>remoteCalls := Suc (remoteCalls w)\<rparr>)"

fun retryWithBackoff ::
  "(World \<Rightarrow> (error + 'a) \<times> World) \<Rightarrow> nat \<Rightarrow> nat \<Rightarrow> World \<Rightarrow> (error + 'a) \<times> World" where
  "retryWithBackoff fn 0 delay w = fn w"
| "retryWithBackoff fn (Suc retries) delay w =
     (case fn w of
        (Inr v, w1) \<Rightarrow> (Inr v, w1)
      | (Inl e, w1) \<Rightarrow> retryWithBackoff fn retries (delay * 2) (w1\<lparr>waits := waits w1 @ [delay]\<rparr>))"

definition defaultRetries :: nat where
  "defaultRetries = 3"

definition defaultDelay :: nat where
  "defaultDelay = 500"

subsection \<open>parseBasicInfoFromText\<close>




subsection \<open>enrichTransaction\<close>

datatype TransactionType = Expense | Income

record ParsedTransaction =
  merchant :: "string option"
  amount :: real
  category :: "string option"
  txType :: TransactionType
  date :: string
  description :: string

record EnrichedTransaction = ParsedTransaction +
  enrichedInfo :: "EnrichedMerchantInfo option"

record CategorizationExample =
  description_x :: string
  category_x :: string

datatype Task = Categorize | Enrich

record EnrichRequest =
  description_q :: string
  task_q :: Task
  merchant_q :: "string option"
  examples_q :: "CategorizationExample list"

text \<open>
  The parsed reply is taken to be an object with the keys the prompt asks for; a key that
  is missing is \<open>None\<close>. \<open>groundingChunks\<close> is the list under
  \<open>candidates[0].groundingMetadata\<close>, empty when any link of that chain is missing.
\<close>

record EnrichReply =
  merchant_y :: "string option"
  category_y :: "string option"
  enrichedInfo_y :: "EnrichedMerchantInfo option"

record Web =
  title :: "string option"
  uri :: "string option"

record EnrichResponse =
  reply :: EnrichReply
  groundingChunks :: "Web option list"

definition withInfo :: "ParsedTransaction \<Rightarrow> EnrichedMerchantInfo option \<Rightarrow> EnrichedTransaction" where
  \<comment> \<open>the transaction's own fields, spread into the result object\<close>
  "withInfo t i =
     \<lparr>merchant = merchant t, amount = amount t, category = category t, txType = txType t,
      date = date t, description = description t, enrichedInfo = i\<rparr>"

definition orOpt :: "string option \<Rightarrow> string option \<Rightarrow> string option" where
  \<comment> \<open>\<open>a || b\<close> where \<open>b\<close> may be undefined too\<close>
  "orOpt a b = (if truthy a then a else b)"

definition ruleTableHit :: "string option \<Rightarrow> string option" where
  \<comment> \<open>the two nested conditions in front of the early return\<close>
  "ruleTableHit identifiedMerchant =
     (case identifiedMerchant of
        None \<Rightarrow> None
      | Some m \<Rightarrow>
          (if m = [] then None
           else (let mappedCategory = getCategoryForMerchant m
                 in if truthy mappedCategory then mappedCategory else None)))"

definition degraded :: "ParsedTransaction \<Rightarrow> string option \<Rightarrow> EnrichedTransaction" where
  "degraded transaction identifiedMerchant =
     withInfo (transaction\<lparr>merchant := Some (orElse identifiedMerchant ''Unknown''),
                           category := Some ''Other''\<rparr>) None"

definition groundedInfo :: "EnrichReply \<Rightarrow> Web option list \<Rightarrow> EnrichedMerchantInfo option" where
  \<comment> \<open>the fallback for a reply without \<open>enrichedInfo\<close>: the first chunk that has a \<open>web\<close>\<close>
  "groundedInfo enrichedData chunks =
     (case List.find (\<lambda>c. c \<noteq> None) chunks of
        Some (Some web) \<Rightarrow>
          Some \<lparr>officialName = orOpt (title web) (merchant_y enrichedData),
                website = orElse (uri web) []\<rparr>
      | _ \<Rightarrow> None)"

definition finalDataOf :: "ParsedTransaction \<Rightarrow> EnrichResponse \<Rightarrow> EnrichedTransaction" where
  "finalDataOf transaction response =
     (let enrichedData = reply response;
          spread = withInfo
            (transaction\<lparr>merchant := (case merchant_y enrichedData of
                                         Some m \<Rightarrow> Some m | None \<Rightarrow> merchant transaction),
                          category := (case category_y enrichedData of
                                         Some c \<Rightarrow> Some c | None \<Rightarrow> category transaction)\<rparr>)
            (enrichedInfo_y enrichedData)
      in if enrichedInfo spread = None
         then spread\<lparr>enrichedInfo := groundedInfo enrichedData (groundingChunks response)\<rparr>
         else spread)"

definition enrichRequest ::
  "ParsedTransaction \<Rightarrow> CategorizationExample list \<Rightarrow> string option \<Rightarrow> EnrichRequest" where
  \<comment> \<open>what the prompt is built from\<close>
  "enrichRequest transaction examples identifiedMerchant =
     \<lparr>description_q = description transaction,
      task_q = (if truthy identifiedMerchant then Categorize else Enrich),
      merchant_q = (if truthy identifiedMerchant then identifiedMerchant else None),
      examples_q = examples\<rparr>"

definition enrichAttempt ::
  "(nat \<Rightarrow> EnrichRequest \<Rightarrow> EnrichResponse outcome) \<Rightarrow> ParsedTransaction \<Rightarrow>
   CategorizationExample list \<Rightarrow> string option \<Rightarrow> string \<Rightarrow> World \<Rightarrow>
   (error + EnrichedTransaction) \<times> World" where
  \<comment> \<open>the function handed to \<open>retryWithBackoff\<close>: its own \<open>catch\<close> returns the degraded
      result\<close>
  "enrichAttempt remote transaction examples identifiedMerchant cacheKey w =
     (case callRemote remote (enrichRequest transaction examples identifiedMerchant) w of
        (Parsed response, w1) \<Rightarrow>
          (let finalData = finalDataOf transaction response
           in (Inr finalData,
               setCachedEnrichment cacheKey
                 \<lparr>merchant_e = orElse (merchant finalData) ''Unknown'',
                  category_e = orElse (category finalData) ''Other'',
                  enrichedInfo_e = enrichedInfo finalData\<rparr> w1))
      | (_, w1) \<Rightarrow> (Inr (degraded transaction identifiedMerchant), w1))"

definition enrichTransaction ::
  "(nat \<Rightarrow> EnrichRequest \<Rightarrow> EnrichResponse outcome) \<Rightarrow> ParsedTransaction \<Rightarrow>
   CategorizationExample list \<Rightarrow> World \<Rightarrow> (error + EnrichedTransaction) \<times> World" where
  "enrichTransaction remote transaction examples w =
     (let h = extractHeuristicData (description transaction);
          identifiedMerchant = merchant_h h;
          cacheKey = cacheKey_h h
      in case ruleTableHit identifiedMerchant of
           Some mappedCategory \<Rightarrow>
             (Inr (withInfo (transaction\<lparr>merchant := identifiedMerchant,
                                          category := Some mappedCategory\<rparr>) None), w)
         | None \<Rightarrow>
             (case getCachedEnrichment cacheKey w of
                (Some cachedData, w1) \<Rightarrow>
                  (Inr (withInfo
                          (transaction\<lparr>merchant := Some (orElse identifiedMerchant
                                                              (merchant_e cachedData)),
                                        category := Some (category_e cachedData)\<rparr>)
                          (enrichedInfo_e cachedData)), w1)
              | (None, w1) \<Rightarrow>
                  retryWithBackoff
                    (enrichAttempt remote transaction examples identifiedMerchant cacheKey)
                    defaultRetries defaultDelay w1))"



subsection \<open>batchEnrichTransactions\<close>









subsection \<open>validateCategoryMismatch\<close>




section \<open>Budget planning (BudgetModal)\<close>

text \<open>
  Amounts, limits and statistics are JavaScript numbers; they are modelled as real numbers,
  so the rounding of floating-point arithmetic and the values \<open>NaN\<close> and \<open>Infinity\<close> are
  outside the model. \<open>Math.round\<close> rounds to the nearest integer, a half upwards.
\<close>

definition mathRound :: "real \<Rightarrow> real" where
  "mathRound x = of_int \<lfloor>x + 1 / 2\<rfloor>"

datatype FinancialGoal = save_emergency | pay_debt | invest | buy_asset | travel | control_spend

datatype BudgetStrategy = aggressive | moderate | maintain | increase | custom

record Transaction =
  id_t :: string
  accountId_t :: string
  date_t :: string
  merchant_t :: string
  amount_t :: real
  type_t :: TransactionType
  category_t :: string
  description_t :: string
  logoUrl_t :: "string option"
  isTransfer_t :: bool

record UserProfile =
  name_u :: string
  age_u :: nat
  primaryGoal :: FinancialGoal
  targetAmount :: "real option"
  targetDate :: "string option"
  joinedDate :: string

record Budget =
  id_g :: string
  category_g :: string
  limit_g :: real
  period_g :: string
  strategy_g :: BudgetStrategy

record DraftBudget =
  category_d :: string
  average_d :: real
  max_d :: "real option"
  min_d :: real
  history_d :: "real list"
  frequency_d :: string
  volatility_d :: real
  limit_d :: real
  strategy_d :: BudgetStrategy
  isDiscretionary_d :: bool
  isSavings_d :: bool
  isModified_d :: bool

definition DISCRETIONARY_CATEGORIES :: "string list" where
  "DISCRETIONARY_CATEGORIES =
     [''Eating Out'', ''Entertainment'', ''Shopping'', ''Personal Care'', ''Gifts'', ''Travel'',
      ''Subscriptions'', ''Alcohol & Bars'', ''Betting'', ''Ride Sharing/Food Delivery'']"

definition SAVINGS_CATEGORIES :: "string list" where
  "SAVINGS_CATEGORIES =
     [''Savings'', ''Investments'', ''Emergency Fund'', ''Sacco'', ''Money Market Fund'',
      ''Pension'', ''Financial Services/Investments'']"

subsection \<open>Month keys\<close>

function showNat :: "nat \<Rightarrow> string" where
  "showNat n =
     (if n < 10 then [''0123456789'' ! n] else showNat (n div 10) @ [''0123456789'' ! (n mod 10)])"
  by pat_completeness auto
termination
  by (relation "measure id") auto

definition showInt :: "int \<Rightarrow> string" where
  "showInt i = (if i < 0 then CHR ''-'' # showNat (nat (- i)) else showNat (nat i))"

definition padStart2 :: "string \<Rightarrow> string" where
  \<comment> \<open>\<open>s.padStart(2, '0')\<close>\<close>
  "padStart2 s = replicate (2 - length s) (CHR ''0'') @ s"

definition monthKey :: "(int \<times> nat) option \<Rightarrow> string" where
  \<comment> \<open>the key built from \<open>getFullYear()\<close> and \<open>getMonth()\<close>; \<open>None\<close> is an invalid date,
      whose two getters give \<open>NaN\<close>\<close>
  "monthKey d =
     (case d of
        Some (y, m) \<Rightarrow> showInt y @ ''-'' @ padStart2 (showNat (m + 1))
      | None \<Rightarrow> ''NaN-NaN'')"

subsection \<open>The pass over the transactions\<close>

text \<open>
  \<open>parseDate\<close> stands for \<open>new Date(t.date)\<close> read in local time: the year and the month
  index (0 to 11) that the two getters report. It depends on the host's time zone and is a
  parameter of the computation. The three collections are objects and a set that keep
  insertion order; they are association lists and a duplicate-free list.
\<close>

record Analysis =
  incomeByMonth :: "(string \<times> real) list"
  expenseByMonthCategory :: "(string \<times> (string \<times> real) list) list"
  allMonthsSet :: "string list"

definition orZero :: "real option \<Rightarrow> real" where
  \<comment> \<open>\<open>v || 0\<close>\<close>
  "orZero v = (case v of None \<Rightarrow> 0 | Some x \<Rightarrow> x)"

definition setAdd :: "string list \<Rightarrow> string \<Rightarrow> string list" where
  "setAdd ks k = (if k \<in> set ks then ks else ks @ [k])"

definition analyseStep :: "(string \<Rightarrow> (int \<times> nat) option) \<Rightarrow> Analysis \<Rightarrow> Transaction \<Rightarrow> Analysis" where
  "analyseStep parseDate a t =
     (let key = monthKey (parseDate (date_t t));
          a1 = a\<lparr>allMonthsSet := setAdd (allMonthsSet a) key\<rparr>
      in if type_t t = Income \<and> \<not> isTransfer_t t
         then a1\<lparr>incomeByMonth :=
                   AList.update key (orZero (map_of (incomeByMonth a1) key) + amount_t t)
                     (incomeByMonth a1)\<rparr>
         else if type_t t = Expense \<and> \<not> isTransfer_t t
         then (let byMonth = (case map_of (expenseByMonthCategory a1) (category_t t) of
                                None \<Rightarrow> [] | Some months \<Rightarrow> months)
               in a1\<lparr>expenseByMonthCategory :=
                        AList.update (category_t t)
                          (AList.update key (orZero (map_of byMonth key) + amount_t t) byMonth)
                          (expenseByMonthCategory a1)\<rparr>)
         else a1)"

definition analyse :: "(string \<Rightarrow> (int \<times> nat) option) \<Rightarrow> Transaction list \<Rightarrow> Analysis" where
  "analyse parseDate transactions =
     foldl (analyseStep parseDate)
       \<lparr>incomeByMonth = [], expenseByMonthCategory = [], allMonthsSet = []\<rparr> transactions"

definition avgMonthlyIncomeOf :: "Analysis \<Rightarrow> real" where
  "avgMonthlyIncomeOf a =
     (let incomeValues = map snd (incomeByMonth a);
          nonZeroIncomes = filter (\<lambda>v. v > 0) incomeValues
      in if length nonZeroIncomes > 0
         then foldl (+) 0 nonZeroIncomes / real (length nonZeroIncomes) else 0)"

definition sortedMonthsOf :: "Analysis \<Rightarrow> string list" where
  \<comment> \<open>\<open>Array.from(allMonthsSet).sort().reverse().slice(0, 12)\<close>\<close>
  "sortedMonthsOf a = take 12 (rev (sort (allMonthsSet a)))"

definition sortedMonths :: "(string \<Rightarrow> (int \<times> nat) option) \<Rightarrow> Transaction list \<Rightarrow> string list" where
  "sortedMonths parseDate transactions = sortedMonthsOf (analyse parseDate transactions)"

subsection \<open>One draft per category\<close>

text \<open>
  A category is only recorded when an expense is seen, and every transaction adds its month
  to the set, so the window is not empty where a draft is computed: the vector's length,
  by which the mean and the variance are divided, is positive there.
\<close>

definition lengthOr1 :: "'a list \<Rightarrow> real" where
  \<comment> \<open>\<open>xs.length || 1\<close>\<close>
  "lengthOr1 xs = (if length xs = 0 then 1 else real (length xs))"

definition mathMax :: "real list \<Rightarrow> real option" where
  \<comment> \<open>\<open>Math.max(...vs)\<close>; \<open>None\<close> is the \<open>-Infinity\<close> of an empty argument list\<close>
  "mathMax vs = (case vs of [] \<Rightarrow> None | v # rest \<Rightarrow> Some (foldl max v rest))"

definition lowestNonZero :: "real list \<Rightarrow> real" where
  \<comment> \<open>\<open>Math.min\<close> of the positive values, with the \<open>Infinity\<close> of an empty list turned to 0\<close>
  "lowestNonZero vs =
     (case filter (\<lambda>v. v > 0) vs of [] \<Rightarrow> 0 | v # rest \<Rightarrow> foldl min v rest)"

definition suggestion ::
  "real \<Rightarrow> bool \<Rightarrow> bool \<Rightarrow> Budget option \<Rightarrow> UserProfile option \<Rightarrow> real \<times> BudgetStrategy" where
  \<comment> \<open>the goal-driven logic: the suggested limit and the strategy\<close>
  "suggestion average isSavings isDiscretionary existing userProfile =
     (let suggestedLimit = mathRound average;
          strategy = (case existing of Some b \<Rightarrow> strategy_g b | None \<Rightarrow> maintain)
      in case (existing, userProfile) of
           (None, Some profile) \<Rightarrow>
             (let goal = primaryGoal profile
              in if isSavings
                 then (if goal \<in> set [save_emergency, invest, buy_asset, travel]
                       then (mathRound (average * 1.1), increase)
                       else (suggestedLimit, maintain))
                 else if isDiscretionary
                 then (if goal \<in> set [save_emergency, pay_debt, control_spend]
                       then (mathRound (average * 0.8), aggressive)
                       else if goal \<in> set [invest, buy_asset]
                       then (mathRound (average * 0.9), moderate)
                       else (suggestedLimit, strategy))
                 else (suggestedLimit, strategy))
         | _ \<Rightarrow> (suggestedLimit, strategy))"

definition draftFor ::
  "Analysis \<Rightarrow> Budget list \<Rightarrow> UserProfile option \<Rightarrow> string \<Rightarrow> DraftBudget" where
  "draftFor a existingBudgets userProfile cat =
     (let months = sortedMonthsOf a;
          byMonth = (case map_of (expenseByMonthCategory a) cat of
                       None \<Rightarrow> [] | Some ms \<Rightarrow> ms);
          monthlyValues = map (\<lambda>m. orZero (map_of byMonth m)) months;
          activeMonths = length (filter (\<lambda>v. v > 0) monthlyValues);
          total = foldl (+) 0 monthlyValues;
          average = total / lengthOr1 months;
          mean = total / real (length monthlyValues);
          variance = foldl (\<lambda>sum val. sum + (val - mean)\<^sup>2) 0 monthlyValues
                       / real (length monthlyValues);
          stdDev = sqrt variance;
          volatility = (if mean > 0 then stdDev / mean else 0);
          presenceRatio = real activeMonths / lengthOr1 months;
          frequency = (if presenceRatio < 0.4 then ''Rare''
                       else if presenceRatio < 0.8 then ''Occasional'' else ''Monthly'');
          existing = List.find (\<lambda>b. category_g b = cat) existingBudgets;
          isDiscretionary = (cat \<in> set DISCRETIONARY_CATEGORIES);
          isSavings = (cat \<in> set SAVINGS_CATEGORIES);
          (suggestedLimit, strategy) =
            suggestion average isSavings isDiscretionary existing userProfile
      in \<lparr>category_d = cat,
          average_d = mathRound average,
          max_d = mathMax monthlyValues,
          min_d = lowestNonZero monthlyValues,
          history_d = monthlyValues,
          frequency_d = frequency,
          volatility_d = volatility,
          limit_d = (case existing of Some b \<Rightarrow> limit_g b | None \<Rightarrow> suggestedLimit),
          strategy_d = strategy,
          isDiscretionary_d = isDiscretionary,
          isSavings_d = isSavings,
          isModified_d = False\<rparr>)"

definition initialDrafts ::
  "(string \<Rightarrow> (int \<times> nat) option) \<Rightarrow> Transaction list \<Rightarrow> Budget list \<Rightarrow> UserProfile option \<Rightarrow>
   DraftBudget list" where
  \<comment> \<open>the drafts in \<open>Object.keys\<close> order, then sorted by descending average (a stable sort)\<close>
  "initialDrafts parseDate transactions existingBudgets userProfile =
     (let a = analyse parseDate transactions
      in sort_key (\<lambda>d. - average_d d)
           (map (draftFor a existingBudgets userProfile) (map fst (expenseByMonthCategory a))))"

subsection \<open>impactAnalysis\<close>

record Impact =
  plannedNetSavings :: real
  newTotalBudget :: real
  riskyCuts :: nat
  freedUpCash :: real

definition riskStep :: "nat \<Rightarrow> DraftBudget \<Rightarrow> nat" where
  \<comment> \<open>the body of \<open>drafts.forEach\<close>\<close>
  "riskStep n d =
     (if \<not> isSavings_d d \<and> limit_d d < min_d d \<and> volatility_d d < 0.2 then Suc n
      else if \<not> isSavings_d d \<and> limit_d d < average_d d * 0.8 \<and> frequency_d d = ''Monthly''
      then Suc n
      else n)"

definition impactAnalysis :: "DraftBudget list \<Rightarrow> real \<Rightarrow> Impact" where
  "impactAnalysis drafts avgMonthlyIncome =
     (let currentTotalSpent =
            foldl (\<lambda>acc d. acc + (if isSavings_d d then 0 else average_d d)) 0 drafts;
          newTotal = foldl (\<lambda>acc d. acc + (if isSavings_d d then 0 else limit_d d)) 0 drafts
      in \<lparr>plannedNetSavings = (if avgMonthlyIncome > 0 then avgMonthlyIncome - newTotal
                                else currentTotalSpent - newTotal),
          newTotalBudget = newTotal,
          riskyCuts = foldl riskStep 0 drafts,
          freedUpCash = currentTotalSpent - newTotal\<rparr>)"

section \<open>Notions used in the statements\<close>


definition monthOf :: "(string \<Rightarrow> (int \<times> nat) option) \<Rightarrow> Transaction \<Rightarrow> string" where
  \<comment> \<open>the month key of a transaction, as the pass computes it\<close>
  "monthOf parseDate t = monthKey (parseDate (date_t t))"

definition spent ::
  "(string \<Rightarrow> (int \<times> nat) option) \<Rightarrow> Transaction list \<Rightarrow> string \<Rightarrow> string \<Rightarrow> real" where
  \<comment> \<open>what a category spent in a month: the amounts of its expenses that are not
      transfers; 0 when there is none\<close>
  "spent parseDate transactions cat m =
     sum_list (map amount_t
       (filter (\<lambda>t. type_t t = Expense \<and> \<not> isTransfer_t t \<and> category_t t = cat
                    \<and> monthOf parseDate t = m) transactions))"

definition byMonthOf :: "Analysis \<Rightarrow> string \<Rightarrow> (string \<times> real) list" where
  \<comment> \<open>the months recorded for a category, none for a category never seen\<close>
  "byMonthOf a cat = (case map_of (expenseByMonthCategory a) cat of None \<Rightarrow> [] | Some ms \<Rightarrow> ms)"

section \<open>Inputs used in the examples\<close>

definition uberDescription :: string where
  "uberDescription =
     ''DEBIT CARD TXN AT UBER * PENDING AMSTERDAM     17-11-2025 / 08:52:09 47-83-9408 16530408 4783940816530408''"

definition uberMerchant :: string where
  "uberMerchant = ''UBER * PENDING AMSTERDAM''"

definition rentDraft :: DraftBudget where
  "rentDraft =
     \<lparr>category_d = ''Rent'', average_d = 1000, max_d = Some 1000, min_d = 1000,
      history_d = [1000, 1000], frequency_d = ''Rare'', volatility_d = 0, limit_d = 900,
      strategy_d = custom, isDiscretionary_d = False, isSavings_d = False,
      isModified_d = True\<rparr>"

definition savingsDraft :: DraftBudget where
  "savingsDraft =
     \<lparr>category_d = ''Savings'', average_d = 500, max_d = Some 500, min_d = 500,
      history_d = [500, 500], frequency_d = ''Monthly'', volatility_d = 0, limit_d = 0,
      strategy_d = custom, isDiscretionary_d = False, isSavings_d = True,
      isModified_d = True\<rparr>"


















definition exampleDates :: "string \<Rightarrow> (int \<times> nat) option" where
  "exampleDates s =
     (if s = ''2024-05-25'' then Some (2024, 4)
      else if s = ''2024-04-03'' then Some (2024, 3) else None)"

definition salaryMay :: Transaction where
  "salaryMay =
     \<lparr>id_t = ''1'', accountId_t = ''a'', date_t = ''2024-05-25'', merchant_t = ''Employer'',
      amount_t = 5000, type_t = Income, category_t = ''Income'', description_t = ''Salary'',
      logoUrl_t = None, isTransfer_t = False\<rparr>"

definition rentApril :: Transaction where
  "rentApril =
     \<lparr>id_t = ''2'', accountId_t = ''a'', date_t = ''2024-04-03'', merchant_t = ''Landlord'',
      amount_t = 101, type_t = Expense, category_t = ''Rent'', description_t = ''Rent April'',
      logoUrl_t = None, isTransfer_t = False\<rparr>"

definition rentBudget :: Budget where
  \<comment> \<open>a budget accepted from a proposal, whose limit is whatever number was proposed\<close>
  "rentBudget =
     \<lparr>id_g = ''b1'', category_g = ''Rent'', limit_g = 2501 / 2, period_g = ''monthly'',
      strategy_g = moderate\<rparr>"

definition saver :: UserProfile where
  "saver =
     \<lparr>name_u = ''Wanjiru'', age_u = 30, primaryGoal = save_emergency, targetAmount = None,
      targetDate = None, joinedDate = ''2024-01-15''\<rparr>"

definition investor :: UserProfile where
  "investor =
     \<lparr>name_u = ''Otieno'', age_u = 41, primaryGoal = invest, targetAmount = None,
      targetDate = None, joinedDate = ''2024-02-01''\<rparr>"

section \<open>The pattern extractor and the rule table on the debit-card example\<close>

lemma extract_uber:
  "extractHeuristicData uberDescription =
     \<lparr>merchant_h = Some uberMerchant, cacheKey_h = uberMerchant\<rparr>"
  by code_simp

lemma extract2_uber:
  "extractHeuristicData2 uberDescription =
     \<lparr>merchant_h = Some uberMerchant, cacheKey_h = uberMerchant\<rparr>"
  by code_simp

lemma category_uber: "getCategoryForMerchant uberMerchant = Some ''Transport''"
  by code_simp

lemma uber_contains: "includesStr uberMerchant ''UBER''"
  by code_simp

lemma ruleTableHit_uber: "ruleTableHit (Some uberMerchant) = Some ''Transport''"
  by (simp add: ruleTableHit_def category_uber truthy_def) (simp add: uberMerchant_def)

text \<open>
  C5 (as amended). For the debit-card description of the end-to-end scenario, both rule
  lists of the pattern extractor yield the merchant \<open>UBER * PENDING AMSTERDAM\<close>, which contains
  \<open>UBER\<close>, with a cache key equal to that merchant. The category rule table has the keyword
  \<open>uber\<close> and maps the merchant to \<open>Transport\<close>, so \<open>enrichTransaction\<close> resolves the
  transaction at the rule table and leaves the state as it was: no cache read, no remote call.
\<close>

theorem uber_resolved_by_rule_table:
  "extractHeuristicData uberDescription =
     \<lparr>merchant_h = Some uberMerchant, cacheKey_h = uberMerchant\<rparr>
   \<and> extractHeuristicData2 uberDescription =
     \<lparr>merchant_h = Some uberMerchant, cacheKey_h = uberMerchant\<rparr>
   \<and> includesStr uberMerchant ''UBER''
   \<and> getCategoryForMerchant uberMerchant = Some ''Transport''
   \<and> enrichTransaction remote (tx\<lparr>description := uberDescription\<rparr>) examples w =
       (Inr (withInfo (tx\<lparr>description := uberDescription, merchant := Some uberMerchant,
                          category := Some ''Transport''\<rparr>) None), w)"
  by (simp add: extract_uber extract2_uber category_uber uber_contains enrichTransaction_def
        ruleTableHit_uber)

text \<open>
  C5 as stated fails: the claim has the rule table miss for this merchant, so that the
  cascade goes on to the cache and the remote layers. The rule table hits.
\<close>

theorem uber_falls_through_counterexample:
  "\<not> (ruleTableHit (merchant_h (extractHeuristicData uberDescription)) = None)"
  by (simp add: extract_uber ruleTableHit_uber)

section \<open>Risky cuts\<close>

lemma riskStep_add: "riskStep (m + k) d = riskStep m d + k"
  by (simp add: riskStep_def)

lemma foldl_riskStep_add: "foldl riskStep (m + k) es = foldl riskStep m es + k"
  by (induction es arbitrary: m) (simp_all add: riskStep_add)

lemma riskyCuts_insert:
  "foldl riskStep n (ds @ d # es) = foldl riskStep n (ds @ es) + riskStep 0 d"
proof -
  have "riskStep (foldl riskStep n ds) d = foldl riskStep n ds + riskStep 0 d"
    using riskStep_add [of 0 "foldl riskStep n ds" d] by (simp add: add.commute)
  then show ?thesis
    by (simp add: foldl_riskStep_add)
qed

lemma riskyCuts_impact: "riskyCuts (impactAnalysis ds income) = foldl riskStep 0 ds"
  by (simp add: impactAnalysis_def Let_def)

lemma riskyCuts_count:
  "riskyCuts (impactAnalysis ds income) =
     length (filter (\<lambda>d. \<not> isSavings_d d \<and>
                          (limit_d d < min_d d \<and> volatility_d d < 0.2 \<or>
                           limit_d d < average_d d * 0.8 \<and> frequency_d d = ''Monthly'')) ds)"
proof (induction ds rule: rev_induct)
  case Nil
  show ?case by (simp add: riskyCuts_impact)
next
  case (snoc d ds)
  then show ?case by (auto simp: riskyCuts_impact riskStep_def)
qed

text \<open>
  C8. Wherever a draft stands in the list, \<open>impactAnalysis\<close> counts it as a risky cut
  when it is not a savings category, its limit is below its historical minimum and its
  volatility is below 0.2; a draft whose \<open>isSavings\<close> flag is set adds nothing to the
  count, whatever its limit.
\<close>

theorem impactAnalysis_risky_cut:
  "(\<not> isSavings_d d \<and> limit_d d < min_d d \<and> volatility_d d < 0.2 \<longrightarrow>
      riskyCuts (impactAnalysis (ds @ d # es) income) =
        Suc (riskyCuts (impactAnalysis (ds @ es) income)))
   \<and> (isSavings_d s \<longrightarrow>
      riskyCuts (impactAnalysis (ds @ s # es) income) =
        riskyCuts (impactAnalysis (ds @ es) income))"
  by (simp only: riskyCuts_impact riskyCuts_insert) (simp add: riskStep_def)

theorem impactAnalysis_risky_cut_witness:
  "\<not> isSavings_d rentDraft \<and> limit_d rentDraft < min_d rentDraft
   \<and> volatility_d rentDraft < 0.2
   \<and> isSavings_d savingsDraft
   \<and> riskyCuts (impactAnalysis [rentDraft] 0) = 1
   \<and> riskyCuts (impactAnalysis [savingsDraft] 0) = 0"
  using impactAnalysis_risky_cut [of rentDraft "[]" "[]" 0 savingsDraft]
  by (simp add: rentDraft_def savingsDraft_def impactAnalysis_def)

section \<open>The enrichment cascade\<close>

lemma getCache_fst: "fst (getCache w) = cacheView w"
  by (simp add: cacheView_def)

lemma getCache_keeps:
  "cacheView (snd (getCache w)) = cacheView w"
  "localStorage (snd (getCache w)) = localStorage w"
  "remoteCalls (snd (getCache w)) = remoteCalls w"
  "cacheReads (snd (getCache w)) = cacheReads w"
  "waits (snd (getCache w)) = waits w"
  "validationCache (snd (getCache w)) = validationCache w"
  by (simp_all add: cacheView_def getCache_def Let_def split: option.splits)





lemma callRemote_simps:
  "fst (callRemote remote q w) = remote (remoteCalls w) q"
  "snd (callRemote remote q w) = w\<lparr>remoteCalls := Suc (remoteCalls w)\<rparr>"
  by (simp_all add: callRemote_def)
























lemma cacheView_remoteCalls [simp]: "cacheView (w\<lparr>remoteCalls := k\<rparr>) = cacheView w"
  by (simp add: cacheView_def getCache_def Let_def split: option.splits)








section \<open>The batched variant\<close>







section \<open>Retry with backoff\<close>












section \<open>Category-mismatch validation\<close>














section \<open>The monthly window\<close>

lemma analyse_snoc:
  "analyse pd (txs @ [t]) = analyseStep pd (analyse pd txs) t"
  by (simp add: analyse_def)

lemma allMonthsSet_step:
  "allMonthsSet (analyseStep pd a t) = setAdd (allMonthsSet a) (monthOf pd t)"
  by (simp add: analyseStep_def Let_def monthOf_def)

lemma expense_step:
  "expenseByMonthCategory (analyseStep pd a t) =
     (if type_t t = Expense \<and> \<not> isTransfer_t t
      then AList.update (category_t t)
             (AList.update (monthOf pd t)
                (orZero (map_of (case map_of (expenseByMonthCategory a) (category_t t) of
                                   None \<Rightarrow> [] | Some ms \<Rightarrow> ms) (monthOf pd t)) + amount_t t)
                (case map_of (expenseByMonthCategory a) (category_t t) of
                   None \<Rightarrow> [] | Some ms \<Rightarrow> ms))
             (expenseByMonthCategory a)
      else expenseByMonthCategory a)"
  by (cases "type_t t") (simp_all add: analyseStep_def Let_def monthOf_def)


lemma allMonthsSet_set: "set (allMonthsSet (analyse pd txs)) = monthOf pd ` set txs"
proof (induction txs rule: rev_induct)
  case Nil
  show ?case by (simp add: analyse_def)
next
  case (snoc t txs)
  then show ?case by (auto simp: analyse_snoc allMonthsSet_step setAdd_def)
qed

lemma expense_spent:
  "orZero (map_of (byMonthOf (analyse pd txs) cat) m) = spent pd txs cat m"
proof (induction txs rule: rev_induct)
  case Nil
  show ?case by (simp add: analyse_def byMonthOf_def orZero_def spent_def)
next
  case (snoc t txs)
  show ?case
  proof (cases "type_t t = Expense \<and> \<not> isTransfer_t t")
    case False
    then have "byMonthOf (analyse pd (txs @ [t])) cat = byMonthOf (analyse pd txs) cat"
      by (auto simp: byMonthOf_def analyse_snoc expense_step)
    with snoc False show ?thesis by (auto simp: spent_def)
  next
    case True
    show ?thesis
    proof (cases "category_t t = cat")
      case False
      with True have "byMonthOf (analyse pd (txs @ [t])) cat = byMonthOf (analyse pd txs) cat"
        by (simp add: byMonthOf_def analyse_snoc expense_step update_conv')
      with snoc False show ?thesis by (simp add: spent_def)
    next
      case c: True
      with True have b: "byMonthOf (analyse pd (txs @ [t])) cat =
          AList.update (monthOf pd t)
            (orZero (map_of (byMonthOf (analyse pd txs) cat) (monthOf pd t)) + amount_t t)
            (byMonthOf (analyse pd txs) cat)"
        by (simp add: byMonthOf_def analyse_snoc expense_step update_conv')
      show ?thesis
      proof (cases "monthOf pd t = m")
        case False
        with snoc True c show ?thesis
          by (simp add: b update_conv' spent_def)
      next
        case m: True
        have "orZero (map_of (byMonthOf (analyse pd (txs @ [t])) cat) m) =
            orZero (map_of (byMonthOf (analyse pd txs) cat) m) + amount_t t"
          using m by (simp add: b update_conv' orZero_def)
        with snoc True c m show ?thesis
          by (simp add: spent_def)
      qed
    qed
  qed
qed

lemma categories_set:
  "set (map fst (expenseByMonthCategory (analyse pd txs))) =
     category_t ` {t \<in> set txs. type_t t = Expense \<and> \<not> isTransfer_t t}"
proof (induction txs rule: rev_induct)
  case Nil
  show ?case by (simp add: analyse_def)
next
  case (snoc t txs)
  have "set (map fst (AList.update k v al)) = insert k (set (map fst al))" for k v
    and al :: "(string \<times> (string \<times> real) list) list"
    by (metis dom_map_of_conv_image_fst update_conv' dom_fun_upd option.distinct(1) set_map)
  with snoc show ?case
    by (auto simp: analyse_snoc expense_step)
qed

lemma window_nonempty:
  assumes "cat \<in> set (map fst (expenseByMonthCategory (analyse pd txs)))"
  shows "sortedMonths pd txs \<noteq> []"
proof -
  from assms obtain t where "t \<in> set txs"
    unfolding categories_set by auto
  then have "set (allMonthsSet (analyse pd txs)) \<noteq> {}"
    by (auto simp: allMonthsSet_set)
  then have "rev (sort (allMonthsSet (analyse pd txs))) \<noteq> []"
    by (metis set_empty set_rev set_sort)
  then show ?thesis
    by (simp add: sortedMonths_def sortedMonthsOf_def)
qed



lemma draft_member:
  assumes "d \<in> set (initialDrafts pd txs budgets profile)"
  obtains cat where "cat \<in> set (map fst (expenseByMonthCategory (analyse pd txs)))"
    and "d = draftFor (analyse pd txs) budgets profile cat"
  using assms by (auto simp: initialDrafts_def Let_def)

lemma draftFor_category: "category_d (draftFor a budgets profile cat) = cat"
  by (simp add: draftFor_def Let_def split: prod.splits)

lemma draftFor_history:
  "history_d (draftFor (analyse pd txs) budgets profile cat) =
     map (spent pd txs cat) (sortedMonths pd txs)"
  by (simp add: draftFor_def Let_def sortedMonths_def expense_spent [unfolded byMonthOf_def]
      split: prod.splits)


lemma month_salary: "monthOf exampleDates salaryMay = ''2024-05''"
  by code_simp

lemma month_rent: "monthOf exampleDates rentApril = ''2024-04''"
  by code_simp

lemma example_window:
  "sortedMonths exampleDates [salaryMay, rentApril] = [''2024-05'', ''2024-04'']"
  by (simp add: sortedMonths_def sortedMonthsOf_def analyse_def allMonthsSet_step setAdd_def
      month_salary month_rent)

lemma example_categories:
  "map fst (expenseByMonthCategory (analyse exampleDates [salaryMay, rentApril])) = [''Rent'']"
  by (simp add: analyse_def expense_step) (simp add: salaryMay_def rentApril_def)

lemma example_spent:
  "spent exampleDates [salaryMay, rentApril] ''Rent'' ''2024-05'' = 0"
  "spent exampleDates [salaryMay, rentApril] ''Rent'' ''2024-04'' = 101"
  by (simp_all add: spent_def month_salary month_rent) (simp_all add: salaryMay_def rentApril_def)

lemma example_drafts:
  "initialDrafts exampleDates [salaryMay, rentApril] budgets profile =
     [draftFor (analyse exampleDates [salaryMay, rentApril]) budgets profile ''Rent'']"
  by (simp add: initialDrafts_def Let_def example_categories del: map_map)



section \<open>Rounding of averages and limits\<close>

lemma mathRound_Ints: "mathRound x \<in> \<int>"
  by (simp add: mathRound_def)

lemma mathRound_near: "\<bar>mathRound x - x\<bar> \<le> 1 / 2"
proof -
  have "of_int \<lfloor>x + 1 / 2\<rfloor> \<le> x + 1 / 2" by (rule of_int_floor_le)
  moreover have "x + 1 / 2 < of_int \<lfloor>x + 1 / 2\<rfloor> + 1" by linarith
  ultimately show ?thesis unfolding mathRound_def by linarith
qed

lemma foldl_plus: "foldl (+) a xs = a + sum_list xs" for a :: real
  by (induction xs arbitrary: a) simp_all

lemma suggestion_Ints: "fst (suggestion average isSavings isDiscretionary existing profile) \<in> \<int>"
  by (auto simp: suggestion_def Let_def mathRound_Ints split: option.splits)

lemma draftFor_average:
  assumes "sortedMonthsOf a \<noteq> []"
  shows "average_d (draftFor a budgets profile cat) =
     mathRound (sum_list (history_d (draftFor a budgets profile cat))
                / real (length (sortedMonthsOf a)))"
  using assms by (simp add: draftFor_def Let_def lengthOr1_def foldl_plus split: prod.splits)

lemma draftFor_limit:
  "limit_d (draftFor a budgets profile cat) =
     (case List.find (\<lambda>b. category_g b = cat) budgets of
        Some b \<Rightarrow> limit_g b
      | None \<Rightarrow> fst (suggestion
          (foldl (+) 0 (history_d (draftFor a budgets profile cat)) / lengthOr1 (sortedMonthsOf a))
          (cat \<in> set SAVINGS_CATEGORIES) (cat \<in> set DISCRETIONARY_CATEGORIES) None profile))"
  by (simp add: draftFor_def Let_def split: prod.splits option.splits)

text \<open>
  C10 (as amended). Every draft has an integer average: the sum of its monthly vector
  divided by the window length, rounded to the nearest integer, so at most 0.5 away from
  the exact mean. When no budget exists for the category the initial limit is an integer
  too: the suggested limit is always a rounded value, the rounded average or, derived from
  the goal, the rounded 10% increase for a savings category and the rounded 20% or 10% cut
  for a discretionary one. When a budget exists for the category, the initial limit is that
  budget's limit as it is.
\<close>

theorem initialDrafts_rounding:
  "(\<forall>d \<in> set (initialDrafts pd txs budgets profile).
      average_d d = mathRound (sum_list (history_d d) / real (length (sortedMonths pd txs)))
      \<and> average_d d \<in> \<int>
      \<and> \<bar>average_d d - sum_list (history_d d) / real (length (sortedMonths pd txs))\<bar> \<le> 1 / 2
      \<and> (List.find (\<lambda>b. category_g b = category_d d) budgets = None \<longrightarrow> limit_d d \<in> \<int>)
      \<and> (\<forall>b. List.find (\<lambda>b. category_g b = category_d d) budgets = Some b \<longrightarrow>
            limit_d d = limit_g b))
   \<and> fst (suggestion average isSavings isDiscretionary existing userProfile) \<in> \<int>
   \<and> (primaryGoal p \<in> {save_emergency, invest, buy_asset, travel} \<longrightarrow>
        suggestion average True isDiscretionary None (Some p) =
          (mathRound (average * 1.1), increase))
   \<and> (primaryGoal p \<in> {save_emergency, pay_debt, control_spend} \<longrightarrow>
        suggestion average False True None (Some p) = (mathRound (average * 0.8), aggressive))
   \<and> (primaryGoal p \<in> {invest, buy_asset} \<longrightarrow>
        suggestion average False True None (Some p) = (mathRound (average * 0.9), moderate))"
proof (intro conjI ballI)
  fix d assume m: "d \<in> set (initialDrafts pd txs budgets profile)"
  then obtain cat where c: "cat \<in> set (map fst (expenseByMonthCategory (analyse pd txs)))"
    and d: "d = draftFor (analyse pd txs) budgets profile cat"
    by (rule draft_member)
  from c have "sortedMonthsOf (analyse pd txs) \<noteq> []"
    using window_nonempty [of cat pd txs] by (simp add: sortedMonths_def)
  then have a: "average_d d =
      mathRound (sum_list (history_d d) / real (length (sortedMonths pd txs)))"
    unfolding d sortedMonths_def by (rule draftFor_average)
  show "average_d d = mathRound (sum_list (history_d d) / real (length (sortedMonths pd txs)))"
    by (rule a)
  show "average_d d \<in> \<int>"
    by (simp add: a mathRound_Ints)
  show "\<bar>average_d d - sum_list (history_d d) / real (length (sortedMonths pd txs))\<bar> \<le> 1 / 2"
    unfolding a by (rule mathRound_near)
  show "List.find (\<lambda>b. category_g b = category_d d) budgets = None \<longrightarrow> limit_d d \<in> \<int>"
    by (simp add: d draftFor_category draftFor_limit suggestion_Ints)
  show "\<forall>b. List.find (\<lambda>b. category_g b = category_d d) budgets = Some b \<longrightarrow>
            limit_d d = limit_g b"
    by (simp add: d draftFor_category draftFor_limit)
next
  show "fst (suggestion average isSavings isDiscretionary existing userProfile) \<in> \<int>"
    by (rule suggestion_Ints)
  show "primaryGoal p \<in> {save_emergency, invest, buy_asset, travel} \<longrightarrow>
        suggestion average True isDiscretionary None (Some p) =
          (mathRound (average * 1.1), increase)"
    by (auto simp: suggestion_def Let_def)
  show "primaryGoal p \<in> {save_emergency, pay_debt, control_spend} \<longrightarrow>
        suggestion average False True None (Some p) = (mathRound (average * 0.8), aggressive)"
    by (auto simp: suggestion_def Let_def)
  show "primaryGoal p \<in> {invest, buy_asset} \<longrightarrow>
        suggestion average False True None (Some p) = (mathRound (average * 0.9), moderate)"
    by (auto simp: suggestion_def Let_def)
qed

lemma half_not_int: "(2501 / 2 :: real) \<notin> \<int>"
proof
  assume "(2501 / 2 :: real) \<in> \<int>"
  then obtain z :: int where "(2501 / 2 :: real) = of_int z" by (rule Ints_cases)
  then have "(of_int (2 * z) :: real) = of_int 2501" by simp
  then have "2 * z = 2501" by (simp only: of_int_eq_iff)
  then show False by presburger
qed

text \<open>
  C10 as stated fails for a category with an existing budget: the draft takes the budget's
  limit, here 1250.5.
\<close>

theorem initialDrafts_rounding_counterexample:
  "map limit_d (initialDrafts exampleDates [salaryMay, rentApril] [rentBudget] None) = [2501 / 2]
   \<and> (2501 / 2 :: real) \<notin> \<int>"
  by (simp add: example_drafts draftFor_limit half_not_int) (simp add: rentBudget_def)

theorem initialDrafts_rounding_witness:
  "draftFor (analyse exampleDates [salaryMay, rentApril]) [] None ''Rent''
     \<in> set (initialDrafts exampleDates [salaryMay, rentApril] [] None)
   \<and> average_d (draftFor (analyse exampleDates [salaryMay, rentApril]) [] None ''Rent'') = 51
   \<and> List.find (\<lambda>b. category_g b = ''Rent'') [] = None
   \<and> limit_d (draftFor (analyse exampleDates [salaryMay, rentApril]) [] None ''Rent'') \<in> \<int>
   \<and> primaryGoal saver \<in> {save_emergency, invest, buy_asset, travel}
   \<and> suggestion 1005 True False None (Some saver) = (1106, increase)
   \<and> primaryGoal saver \<in> {save_emergency, pay_debt, control_spend}
   \<and> suggestion 1005 False True None (Some saver) = (804, aggressive)
   \<and> primaryGoal investor \<in> {invest, buy_asset}
   \<and> suggestion 1005 False True None (Some investor) = (905, moderate)"
proof -
  let ?d = "draftFor (analyse exampleDates [salaryMay, rentApril]) [] None ''Rent''"
  have m: "?d \<in> set (initialDrafts exampleDates [salaryMay, rentApril] [] None)"
    by (simp add: example_drafts)
  have g: "primaryGoal saver \<in> {save_emergency, invest, buy_asset, travel}"
    "primaryGoal saver \<in> {save_emergency, pay_debt, control_spend}"
    "primaryGoal investor \<in> {invest, buy_asset}"
    by (simp_all add: saver_def investor_def)
  note t1 = initialDrafts_rounding [where pd = exampleDates and txs = "[salaryMay, rentApril]"
      and budgets = "[]" and profile = None and average = 1005 and isSavings = True
      and isDiscretionary = False and existing = None and userProfile = None and p = saver]
  note t2 = initialDrafts_rounding [where pd = exampleDates and txs = "[salaryMay, rentApril]"
      and budgets = "[]" and profile = None and average = 1005 and isSavings = True
      and isDiscretionary = False and existing = None and userProfile = None and p = investor]
  note dm = t1 [THEN conjunct1, THEN bspec, OF m]
  note a = dm [THEN conjunct1]
  note l = dm [THEN conjunct2, THEN conjunct2, THEN conjunct2, THEN conjunct1]
  have a': "average_d ?d = 51"
    by (simp only: a draftFor_history example_window)
       (simp add: mathRound_def example_spent)
  have f: "List.find (\<lambda>b. category_g b = ''Rent'') [] = None"
    by simp
  have l': "limit_d ?d \<in> \<int>"
    using l by (simp only: draftFor_category f simp_thms)
  note s1 = t1 [THEN conjunct2, THEN conjunct2, THEN conjunct1, THEN mp, OF g(1)]
  note s2 = t1 [THEN conjunct2, THEN conjunct2, THEN conjunct2, THEN conjunct1, THEN mp, OF g(2)]
  note s3 = t2 [THEN conjunct2, THEN conjunct2, THEN conjunct2, THEN conjunct2, THEN mp, OF g(3)]
  have r: "mathRound (1005 * 1.1) = 1106" "mathRound (1005 * 0.8) = 804"
    "mathRound (1005 * 0.9) = 905"
    by (simp_all add: mathRound_def)
  show ?thesis
    by (intro conjI m a' f l' g) (simp_all only: s1 s2 s3 r)
qed

end
